theory Spec2Isabelle
  imports Main
begin

section \<open>Values exchanged with the store and the backend\<close>

text \<open>
  The handlers of \<^verbatim>\<open>src/api/api.py\<close> keep all of their state in a Redis instance and
  in collaborators that are imported from modules outside the file (the backend classes,
  the database helpers, the JWT helpers and the configuration). Python strings are
  modelled by their UTF-8 bytes, so a \<open>string\<close> here is what Redis receives as key or
  value. Codes are carried in their text form: a key and an f-string render an integer
  code the same way.
\<close>

datatype jval = JNull | JBool bool | JInt int | JStr string

type_synonym jdict = "(string \<times> jval) list"

text \<open>\<^verbatim>\<open>d.get(k)\<close>: the value under the key, Python's \<open>None\<close> when the key is missing.\<close>

definition dict_get :: "jdict \<Rightarrow> string \<Rightarrow> jval" where
  "dict_get d k = (case map_of d k of None \<Rightarrow> JNull | Some v \<Rightarrow> v)"

datatype exn =
    HTTPException int string "(string \<times> string) list"
  | AttributeError
  | KeyError
  | JSONDecodeError
  | JWTError
  | DataError
  | OtherError string

text \<open>\<^verbatim>\<open>d[k]\<close>: raises \<open>KeyError\<close> when the key is missing.\<close>

definition dict_item :: "jdict \<Rightarrow> string \<Rightarrow> exn + jval" where
  "dict_item d k = (case map_of d k of None \<Rightarrow> Inl KeyError | Some v \<Rightarrow> Inr v)"

text \<open>The decimal text of a number. The digit index is always below ten.\<close>

definition digit_char :: "nat \<Rightarrow> char" where
  "digit_char d = ''0123456789'' ! d"

fun str_nat :: "nat \<Rightarrow> string" where
  "str_nat n =
     (if n < 10 then [digit_char n]
      else str_nat (n div 10) @ [digit_char (n mod 10)])"

declare str_nat.simps [simp del]

definition str_int :: "int \<Rightarrow> string" where
  "str_int i = (if i < 0 then ''-'' @ str_nat (nat (- i)) else str_nat (nat i))"

text \<open>\<^verbatim>\<open>str(v)\<close>, as an f-string renders a value.\<close>

fun py_str :: "jval \<Rightarrow> string" where
  "py_str JNull = ''None''"
| "py_str (JBool True) = ''True''"
| "py_str (JBool False) = ''False''"
| "py_str (JInt i) = str_int i"
| "py_str (JStr s) = s"

text \<open>
  The encoder of the Redis client, applied to every key and value: strings go through
  as their bytes, integers as their decimal text, and booleans and \<open>None\<close> are refused
  with \<open>DataError\<close>.
\<close>

fun redis_encode :: "jval \<Rightarrow> exn + string" where
  "redis_encode (JStr s) = Inr s"
| "redis_encode (JInt i) = Inr (str_int i)"
| "redis_encode (JBool b) = Inl DataError"
| "redis_encode JNull = Inl DataError"

section \<open>The Redis store\<close>

text \<open>
  A stored value is either the text that \<^verbatim>\<open>json.dumps\<close> produced for a dictionary, or
  a string written as it is (the login stored under a token). Beside the value the store
  keeps the remaining time to live in seconds, \<open>None\<close> for a key that never expires.
\<close>

datatype rbytes = JsonText jdict | PlainText string

type_synonym store = "string \<rightharpoonup> (rbytes \<times> nat option)"

definition redis_exists :: "store \<Rightarrow> string \<Rightarrow> bool" where
  "redis_exists s k = (s k \<noteq> None)"

definition redis_get :: "store \<Rightarrow> string \<Rightarrow> rbytes option" where
  "redis_get s k = map_option fst (s k)"

definition redis_ttl :: "store \<Rightarrow> string \<Rightarrow> nat option" where
  "redis_ttl s k = (case s k of None \<Rightarrow> None | Some (v, t) \<Rightarrow> t)"

text \<open>\<^verbatim>\<open>set(k, v)\<close> without an expiry argument stores a key that never expires.\<close>

definition redis_set :: "store \<Rightarrow> string \<Rightarrow> rbytes \<Rightarrow> store" where
  "redis_set s k v = s(k \<mapsto> (v, None))"

definition redis_setex :: "store \<Rightarrow> string \<Rightarrow> nat \<Rightarrow> rbytes \<Rightarrow> store" where
  "redis_setex s k ttl v = s(k \<mapsto> (v, Some ttl))"

definition redis_delete :: "store \<Rightarrow> string \<Rightarrow> store" where
  "redis_delete s k = s(k := None)"

text \<open>
  The passing of \<open>t\<close> seconds, as the store sees it: a key whose time to live has run
  out is gone, a key without one stays.
\<close>

definition elapse :: "nat \<Rightarrow> store \<Rightarrow> store" where
  "elapse t s =
     (\<lambda>k. case s k of
        None \<Rightarrow> None
      | Some (v, None) \<Rightarrow> Some (v, None)
      | Some (v, Some ttl) \<Rightarrow> if ttl \<le> t then None else Some (v, Some (ttl - t)))"

text \<open>\<^verbatim>\<open>timedelta(hours=h)\<close> in seconds.\<close>

definition timedelta_hours :: "nat \<Rightarrow> nat" where
  "timedelta_hours h = h * 3600"

section \<open>Collaborators outside the file\<close>

text \<open>
  What the backend returns: a dictionary with a status code, a message and, on success
  of the steps that send a mail, the code (and for the login step the login).
\<close>

record backend_result =
  res_status_code :: int
  res_message :: string
  res_code :: string
  res_login :: string

datatype jdoc = JObject jdict | JNonObject

text \<open>
  The imported names are parameters of the model. \<open>'w\<close> is everything behind them: the
  user table and the clock. \<open>json_loads_text\<close> is \<^verbatim>\<open>json.loads\<close> on a text that was not
  written by \<^verbatim>\<open>json.dumps\<close>.
\<close>

record 'w env =
  SECRET_KEY :: string
  SESSION_STATE_MAIL :: jval
  SESSION_STATE_CODE :: jval
  Registration_register :: "string \<Rightarrow> string \<Rightarrow> string \<Rightarrow> string \<Rightarrow> 'w \<Rightarrow> backend_result \<times> 'w"
  Registration_confirm_register :: "jval \<Rightarrow> jval \<Rightarrow> jval \<Rightarrow> 'w \<Rightarrow> backend_result \<times> 'w"
  Authorization_authorization :: "string \<Rightarrow> string \<Rightarrow> 'w \<Rightarrow> backend_result \<times> 'w"
  PasswordRecovery_recover_pass :: "string \<Rightarrow> 'w \<Rightarrow> backend_result \<times> 'w"
  PasswordRecovery_new_password :: "jval \<Rightarrow> string \<Rightarrow> string \<Rightarrow> 'w \<Rightarrow> backend_result \<times> 'w"
  update_is_active :: "jval \<Rightarrow> bool \<Rightarrow> 'w \<Rightarrow> 'w"
  create_jwt_token :: "jval \<Rightarrow> nat \<Rightarrow> string \<Rightarrow> 'w \<Rightarrow> string"
  decode_jwt_token :: "string \<Rightarrow> string \<Rightarrow> 'w \<Rightarrow> exn + jdict"
  capture_message :: "string \<Rightarrow> 'w \<Rightarrow> 'w"
  json_loads_text :: "string \<Rightarrow> exn + jdoc"

record 'w state =
  redis :: store
  world :: 'w

section \<open>Responses\<close>

record response =
  status_code :: int
  content :: "(string \<times> string) list"
  headers :: "(string \<times> string) list"

text \<open>
  The message literals of the file are Russian; each is given by its UTF-8 bytes.
  In the order of the source they read: "enter the code from the mail", "the entered
  code is wrong", "you are authorised", "now enter the code from the mail", "you may
  change the password", "you did not give the mail", "you did not enter the code",
  "logged out", "token not found".
\<close>

definition MSG_ENTER_CODE :: string where
  "MSG_ENTER_CODE = map char_of
     [208, 146, 208, 178, 208, 181, 208, 180, 208, 184, 209, 130, 208, 181, 32, 208, 186,
      208, 190, 208, 180, 32, 209, 129, 32, 208, 191, 208, 190, 209, 135, 209, 130, 209,
      139, 33 :: nat]"

definition MSG_WRONG_CODE :: string where
  "MSG_WRONG_CODE = map char_of
     [208, 146, 208, 178, 208, 181, 208, 180, 209, 145, 208, 189, 208, 189, 209, 139, 208,
      185, 32, 208, 186, 208, 190, 208, 180, 32, 208, 189, 208, 181, 32, 208, 178, 208,
      181, 209, 128, 208, 189, 209, 139, 208, 185, 33 :: nat]"

definition MSG_AUTHORIZED :: string where
  "MSG_AUTHORIZED = map char_of
     [208, 146, 209, 139, 32, 208, 176, 208, 178, 209, 130, 208, 190, 209, 128, 208, 184,
      208, 183, 208, 184, 209, 128, 208, 190, 208, 178, 208, 176, 208, 189, 208, 189, 209,
      139, 33 :: nat]"

definition MSG_NOW_ENTER_CODE :: string where
  "MSG_NOW_ENTER_CODE = map char_of
     [208, 162, 208, 181, 208, 191, 208, 181, 209, 128, 209, 140, 32, 208, 178, 208, 178,
      208, 181, 208, 180, 208, 184, 209, 130, 208, 181, 32, 208, 186, 208, 190, 208, 180,
      32, 209, 129, 32, 208, 191, 208, 190, 209, 135, 209, 130, 209, 139, 46, 46,
      46 :: nat]"

definition MSG_CHANGE_PASSWORD :: string where
  "MSG_CHANGE_PASSWORD = map char_of
     [208, 156, 208, 190, 208, 182, 208, 181, 209, 130, 208, 181, 32, 208, 188, 208, 181,
      208, 189, 209, 143, 209, 130, 209, 140, 32, 208, 191, 208, 176, 209, 128, 208, 190,
      208, 187, 209, 140, 33 :: nat]"

definition MSG_NO_MAIL :: string where
  "MSG_NO_MAIL = map char_of
     [208, 146, 209, 139, 32, 208, 189, 208, 181, 32, 209, 131, 208, 186, 208, 176, 208,
      183, 208, 176, 208, 187, 208, 184, 32, 208, 191, 208, 190, 209, 135, 209, 130, 209,
      131, 33 :: nat]"

definition MSG_NO_CODE :: string where
  "MSG_NO_CODE = map char_of
     [208, 146, 209, 139, 32, 208, 189, 208, 181, 32, 208, 178, 208, 178, 208, 181, 208,
      187, 208, 184, 32, 208, 186, 208, 190, 208, 180, 33 :: nat]"

definition MSG_LOGOUT :: string where
  "MSG_LOGOUT = map char_of
     [208, 163, 209, 129, 208, 191, 208, 181, 209, 136, 208, 189, 209, 139, 208, 185, 32,
      208, 178, 209, 139, 209, 133, 208, 190, 208, 180, 33 :: nat]"

definition MSG_TOKEN_NOT_FOUND :: string where
  "MSG_TOKEN_NOT_FOUND = map char_of
     [208, 162, 208, 190, 208, 186, 208, 181, 208, 189, 32, 208, 189, 208, 181, 32, 208,
      189, 208, 176, 208, 185, 208, 180, 208, 181, 208, 189 :: nat]"

text \<open>\<^verbatim>\<open>JSONResponse(content={"message": m}, status_code=c)\<close>\<close>

definition JSONResponse :: "string \<Rightarrow> int \<Rightarrow> response" where
  "JSONResponse m c = \<lparr>status_code = c, content = [(''message'', m)], headers = []\<rparr>"

section \<open>Reading an entry\<close>

text \<open>\<^verbatim>\<open>json.loads(b.decode('utf-8'))\<close> on what the store returned.\<close>

definition json_loads :: "'w env \<Rightarrow> rbytes \<Rightarrow> exn + jdoc" where
  "json_loads env b =
     (case b of JsonText d \<Rightarrow> Inr (JObject d) | PlainText s \<Rightarrow> json_loads_text env s)"

text \<open>
  The lines every confirmation handler shares:
  \<^verbatim>\<open>
  user_data = redis_client.get(key)
  user_data = json.loads(user_data.decode('utf-8'))
  if isinstance(user_data, JSONResponse):
      return user_data
  ... user_data.get(...)
  \<close>
  A missing key makes \<^verbatim>\<open>get\<close> return \<open>None\<close>, and \<^verbatim>\<open>None.decode\<close> raises
  \<open>AttributeError\<close>. What \<^verbatim>\<open>json.loads\<close> returns is never a \<open>JSONResponse\<close>, so that
  branch is not taken; a document that is not a dictionary has no \<^verbatim>\<open>get\<close>, and the
  first read of a field raises \<open>AttributeError\<close> before anything else happens.
\<close>

definition load_entry :: "'w env \<Rightarrow> store \<Rightarrow> string \<Rightarrow> exn + jdict" where
  "load_entry env s k =
     (case redis_get s k of
        None \<Rightarrow> Inl AttributeError
      | Some b \<Rightarrow>
          (case json_loads env b of
             Inl e \<Rightarrow> Inl e
           | Inr JNonObject \<Rightarrow> Inl AttributeError
           | Inr (JObject d) \<Rightarrow> Inr d))"

section \<open>Request bodies\<close>

text \<open>
  The request models with more than one field. \<^verbatim>\<open>CodeConfirm\<close> has the single field
  \<^verbatim>\<open>code\<close> and \<^verbatim>\<open>Recover\<close> the single field \<^verbatim>\<open>user\<close>; the handlers that take
  them receive the field itself.
\<close>

record UserReg =
  reg_email :: string
  reg_login :: string
  reg_password :: string
  reg_password_two :: string

record UserAuth =
  auth_login :: string
  auth_password :: string
  auth_memorize_user :: bool

record PasswordChange =
  pc_user :: string
  pc_password :: string
  pc_password_two :: string

section \<open>The handlers\<close>

type_synonym 'w outcome = "(exn + response) \<times> 'w state"

definition credentials_exception :: exn where
  "credentials_exception =
     HTTPException 401 ''Could not validate credentials'' [(''WWW-Authenticate'', ''Bearer'')]"

text \<open>
  \<^verbatim>\<open>get_current_user\<close> reads the store and the token and changes nothing. The
  \<^verbatim>\<open>except\<close> clause names \<^verbatim>\<open>jwt.JWTError\<close> only: any other exception of the decoder
  passes through.
\<close>

definition get_current_user :: "'w env \<Rightarrow> string \<Rightarrow> 'w state \<Rightarrow> exn + jdict" where
  "get_current_user env token st =
     (if \<not> redis_exists (redis st) token then Inl credentials_exception
      else
        (case decode_jwt_token env token (SECRET_KEY env) (world st) of
           Inl e \<Rightarrow> (if e = JWTError then Inl credentials_exception else Inl e)
         | Inr payload \<Rightarrow>
             (let login = dict_get payload ''login''
              in if login = JNull then Inl credentials_exception
                 else Inr [(''login'', login)])))"

definition registration :: "'w env \<Rightarrow> UserReg \<Rightarrow> 'w state \<Rightarrow> 'w outcome" where
  "registration env data st =
     (let (result, w) =
            Registration_register env (reg_email data) (reg_login data)
              (reg_password data) (reg_password_two data) (world st)
      in if res_status_code result = 200 then
           (let data_redis =
                  [(''email'', JStr (reg_email data)),
                   (''login'', JStr (reg_login data)),
                   (''password'', JStr (reg_password data))]
            in (Inr (JSONResponse MSG_ENTER_CODE 200),
                \<lparr>redis = redis_set (redis st) (res_code result) (JsonText data_redis),
                 world = w\<rparr>))
         else
           (Inr (JSONResponse (res_message result) (res_status_code result)),
            \<lparr>redis = redis st, world = capture_message env (res_message result) w\<rparr>))"

definition confirm :: "'w env \<Rightarrow> string \<Rightarrow> 'w state \<Rightarrow> 'w outcome" where
  "confirm env code st =
     (if \<not> redis_exists (redis st) code then (Inr (JSONResponse MSG_WRONG_CODE 400), st)
      else
        (case load_entry env (redis st) code of
           Inl e \<Rightarrow> (Inl e, st)
         | Inr user_data \<Rightarrow>
             (let email = dict_get user_data ''email'';
                  login = dict_get user_data ''login'';
                  password = dict_get user_data ''password'';
                  (result, w) = Registration_confirm_register env email login password (world st)
              in if res_status_code result = 200 then
                   (Inr (JSONResponse (res_message result) 200),
                    \<lparr>redis = redis_delete (redis st) (''login:'' @ code), world = w\<rparr>)
                 else
                   (Inr (JSONResponse (res_message result) 400),
                    \<lparr>redis = redis st, world = w\<rparr>))))"

definition authorization :: "'w env \<Rightarrow> UserAuth \<Rightarrow> 'w state \<Rightarrow> 'w outcome" where
  "authorization env data st =
     (let (result, w) =
            Authorization_authorization env (auth_login data) (auth_password data) (world st)
      in if res_status_code result = 200 then
           (let data_redis =
                  [(''code'', JStr (res_code result)),
                   (''login'', JStr (auth_login data)),
                   (''remember_user'', JBool (auth_memorize_user data))]
            in (Inr \<lparr>status_code = 200, content = [(''key'', res_login result)], headers = []\<rparr>,
                \<lparr>redis = redis_set (redis st) (res_code result) (JsonText data_redis),
                 world = w\<rparr>))
         else
           (Inr (JSONResponse (res_message result) (res_status_code result)),
            \<lparr>redis = redis st, world = w\<rparr>))"

text \<open>
  In \<^verbatim>\<open>verification\<close> the response for a code that is not in the store is assigned to
  \<^verbatim>\<open>response\<close> and not returned; the handler goes on to read the entry. The model keeps
  the assignment: \<open>response\<close> is bound and never used.
\<close>

definition verification :: "'w env \<Rightarrow> string \<Rightarrow> 'w state \<Rightarrow> 'w outcome" where
  "verification env code st =
     (let response =
            (if \<not> redis_exists (redis st) code
             then Some (JSONResponse MSG_WRONG_CODE 400) else None)
      in case load_entry env (redis st) code of
           Inl e \<Rightarrow> (Inl e, st)
         | Inr user_data \<Rightarrow>
             (let login = dict_get user_data ''login'';
                  auth_code = dict_get user_data ''code'';
                  token = create_jwt_token env login 1 (SECRET_KEY env) (world st);
                  w = update_is_active env login True (world st)
              in case redis_encode login of
                   Inl e \<Rightarrow> (Inl e, \<lparr>redis = redis st, world = w\<rparr>)
                 | Inr v \<Rightarrow>
                     (Inr \<lparr>status_code = 200,
                           content = [(''message'', MSG_AUTHORIZED)],
                           headers = [(''Authorization'', ''Bearer '' @ token)]\<rparr>,
                      \<lparr>redis =
                         redis_delete
                           (redis_setex (redis st) token (timedelta_hours 12) (PlainText v))
                           (''login:'' @ py_str auth_code),
                       world = w\<rparr>)))"

definition recover :: "'w env \<Rightarrow> string \<Rightarrow> 'w state \<Rightarrow> 'w outcome" where
  "recover env user st =
     (let (result, w) = PasswordRecovery_recover_pass env user (world st);
          data_redis = [(''state'', SESSION_STATE_MAIL env), (''user'', JStr user)]
      in if res_status_code result = 200 then
           (Inr \<lparr>status_code = 200,
                 content = [(''message'', MSG_NOW_ENTER_CODE), (''user'', user)],
                 headers = []\<rparr>,
            \<lparr>redis = redis_set (redis st) (res_code result) (JsonText data_redis),
             world = w\<rparr>)
         else
           (Inr (JSONResponse (res_message result) (res_status_code result)),
            \<lparr>redis = redis st, world = w\<rparr>))"

text \<open>\<^verbatim>\<open>reset_code\<close> opens like \<^verbatim>\<open>verification\<close>: the response is assigned, not returned.\<close>

definition reset_code :: "'w env \<Rightarrow> string \<Rightarrow> 'w state \<Rightarrow> 'w outcome" where
  "reset_code env code st =
     (let response =
            (if \<not> redis_exists (redis st) code
             then Some (JSONResponse MSG_WRONG_CODE 400) else None)
      in case load_entry env (redis st) code of
           Inl e \<Rightarrow> (Inl e, st)
         | Inr user_data \<Rightarrow>
             (let state = dict_get user_data ''state'';
                  user = dict_get user_data ''user''
              in if state = SESSION_STATE_MAIL env then
                   (let data_redis = [(''state'', SESSION_STATE_CODE env), (''user'', user)]
                    in case redis_encode user of
                         Inl e \<Rightarrow> (Inl e, st)
                       | Inr k \<Rightarrow>
                           (Inr (JSONResponse MSG_CHANGE_PASSWORD 200),
                            \<lparr>redis =
                               redis_delete (redis_set (redis st) k (JsonText data_redis))
                                 (''login:'' @ code),
                             world = world st\<rparr>))
                 else (Inr (JSONResponse MSG_NO_MAIL 400), st)))"

definition change_password :: "'w env \<Rightarrow> PasswordChange \<Rightarrow> 'w state \<Rightarrow> 'w outcome" where
  "change_password env data st =
     (case load_entry env (redis st) (pc_user data) of
        Inl e \<Rightarrow> (Inl e, st)
      | Inr user_data \<Rightarrow>
          (let state = dict_get user_data ''state'';
               user = dict_get user_data ''user''
           in if state = SESSION_STATE_CODE env then
                (let (result, w) =
                       PasswordRecovery_new_password env user (pc_password data)
                         (pc_password_two data) (world st)
                 in if res_status_code result = 200 then
                      (Inr (JSONResponse (res_message result) (res_status_code result)),
                       \<lparr>redis = redis_delete (redis st) (''login:'' @ py_str user), world = w\<rparr>)
                    else
                      (Inr (JSONResponse (res_message result) (res_status_code result)),
                       \<lparr>redis = redis st, world = w\<rparr>))
              else (Inr (JSONResponse MSG_NO_CODE 400), st)))"

text \<open>
  \<^verbatim>\<open>logout\<close> deletes the token before it decodes it, and decodes it outside any
  \<^verbatim>\<open>try\<close>: an exception of the decoder, or a payload without \<^verbatim>\<open>login\<close>, leaves the
  handler after the deletion.
\<close>

definition logout :: "'w env \<Rightarrow> string \<Rightarrow> 'w state \<Rightarrow> 'w outcome" where
  "logout env token st =
     (if redis_exists (redis st) token then
        (let r = redis_delete (redis st) token
         in case decode_jwt_token env token (SECRET_KEY env) (world st) of
              Inl e \<Rightarrow> (Inl e, \<lparr>redis = r, world = world st\<rparr>)
            | Inr login \<Rightarrow>
                (case dict_item login ''login'' of
                   Inl e \<Rightarrow> (Inl e, \<lparr>redis = r, world = world st\<rparr>)
                 | Inr l \<Rightarrow>
                     (Inr (JSONResponse MSG_LOGOUT 200),
                      \<lparr>redis = r, world = update_is_active env l True (world st)\<rparr>)))
      else (Inr (JSONResponse MSG_TOKEN_NOT_FOUND 400), st))"

section \<open>A concrete backend for running the handlers\<close>

text \<open>
  To run the handlers on concrete requests the parameters need values. The world below is
  a clock and a journal of what the backend was asked to do. Its token for a login is
  the text \<open>jwt.<login>.<expiry>\<close>; its decoder knows the token issued to \<open>alice\<close> at
  time 0 for one hour and refuses it, as an expired token is refused, once the clock has
  reached the expiry.
\<close>

datatype event =
    UserSaved jval jval jval
  | PasswordSaved jval string
  | ActiveSet jval bool
  | Captured string

record sim_world =
  clock :: nat
  journal :: "event list"

definition ok_result :: "string \<Rightarrow> string \<Rightarrow> string \<Rightarrow> backend_result" where
  "ok_result m c l = \<lparr>res_status_code = 200, res_message = m, res_code = c, res_login = l\<rparr>"

definition fail_result :: "int \<Rightarrow> string \<Rightarrow> backend_result" where
  "fail_result n m = \<lparr>res_status_code = n, res_message = m, res_code = [], res_login = []\<rparr>"

definition sim_env :: "sim_world env" where
  "sim_env =
     \<lparr>SECRET_KEY = ''secret'',
      SESSION_STATE_MAIL = JStr ''mail'',
      SESSION_STATE_CODE = JStr ''code'',
      Registration_register =
        (\<lambda>email login password password_two w.
           if password = password_two then (ok_result ''sent'' ''123456'' login, w)
           else (fail_result 422 ''passwords differ'', w)),
      Registration_confirm_register =
        (\<lambda>email login password w.
           (ok_result ''saved'' [] [], w\<lparr>journal := journal w @ [UserSaved email login password]\<rparr>)),
      Authorization_authorization =
        (\<lambda>login password w. (ok_result ''sent'' ''654321'' login, w)),
      PasswordRecovery_recover_pass =
        (\<lambda>user w. (ok_result ''sent'' ''111222'' user, w)),
      PasswordRecovery_new_password =
        (\<lambda>user password password_two w.
           if password = password_two
           then (ok_result ''changed'' [] [],
                 w\<lparr>journal := journal w @ [PasswordSaved user password]\<rparr>)
           else (fail_result 400 ''passwords differ'', w)),
      update_is_active = (\<lambda>login b w. w\<lparr>journal := journal w @ [ActiveSet login b]\<rparr>),
      create_jwt_token =
        (\<lambda>login hours key w.
           ''jwt.'' @ py_str login @ ''.'' @ str_nat (clock w + hours * 3600)),
      decode_jwt_token =
        (\<lambda>token key w.
           if token = ''jwt.alice.3600'' \<and> clock w < 3600
           then Inr [(''login'', JStr ''alice''), (''exp'', JInt 3600)]
           else Inl JWTError),
      capture_message = (\<lambda>m w. w\<lparr>journal := journal w @ [Captured m]\<rparr>),
      json_loads_text = (\<lambda>s. Inl JSONDecodeError)\<rparr>"

definition sim_state :: "nat \<Rightarrow> (string \<times> rbytes \<times> nat option) list \<Rightarrow> sim_world state" where
  "sim_state t kvs = \<lparr>redis = map_of kvs, world = \<lparr>clock = t, journal = []\<rparr>\<rparr>"

text \<open>
  The states the flows of \<open>alice\<close> pass through with this backend: nothing stored yet,
  a registration waiting for its code, a login waiting for its code, a recovery waiting
  for its code, a recovery whose code was confirmed, and a session \<open>t\<close> seconds after
  the login.
\<close>

definition reg_alice :: UserReg where
  "reg_alice =
     \<lparr>reg_email = ''a@x.com'', reg_login = ''alice'',
      reg_password = ''P@ss1'', reg_password_two = ''P@ss1''\<rparr>"

definition nothing_stored :: "sim_world state" where
  "nothing_stored = sim_state 0 []"

definition pending_registration :: "sim_world state" where
  "pending_registration =
     sim_state 0
       [(''123456'',
         JsonText
           [(''email'', JStr ''a@x.com''), (''login'', JStr ''alice''),
            (''password'', JStr ''P@ss1'')],
         None)]"

definition pending_login :: "sim_world state" where
  "pending_login =
     sim_state 0
       [(''654321'',
         JsonText
           [(''code'', JStr ''654321''), (''login'', JStr ''alice''),
            (''remember_user'', JBool False)],
         None)]"

definition pending_recovery :: "sim_world state" where
  "pending_recovery =
     sim_state 0
       [(''111222'', JsonText [(''state'', JStr ''mail''), (''user'', JStr ''alice'')], None)]"

definition verified_recovery :: "sim_world state" where
  "verified_recovery =
     sim_state 0
       [(''alice'', JsonText [(''state'', JStr ''code''), (''user'', JStr ''alice'')], None)]"

definition session_at :: "nat \<Rightarrow> string \<Rightarrow> sim_world state" where
  "session_at t owner =
     sim_state t [(''jwt.alice.3600'', PlainText owner, Some (43200 - t))]"


section \<open>Facts about the store and the handlers\<close>

lemmas redis_defs = redis_exists_def redis_get_def redis_ttl_def redis_set_def
  redis_setex_def redis_delete_def

lemmas sim_defs = sim_env_def sim_state_def ok_result_def fail_result_def

lemmas entry_defs = load_entry_def json_loads_def dict_get_def dict_item_def

text \<open>The key that the handlers delete is never the key they looked up.\<close>

lemma login_key_neq: "''login:'' @ k \<noteq> k"
proof
  assume "''login:'' @ k = k"
  then have "length (''login:'' @ k) = length k" by simp
  then show False by simp
qed


text \<open>
  With the concrete backend, the request steps lead from the empty store to the pending
  states named above.
\<close>

lemma registration_reaches_pending:
  "registration sim_env reg_alice nothing_stored = (Inr (JSONResponse MSG_ENTER_CODE 200), pending_registration)"
  by (simp add: registration_def reg_alice_def nothing_stored_def pending_registration_def sim_defs redis_defs Let_def)


lemma authorization_reaches_pending:
  "authorization sim_env \<lparr>auth_login = ''alice'', auth_password = ''P@ss1'', auth_memorize_user = False\<rparr> nothing_stored
     = (Inr \<lparr>status_code = 200, content = [(''key'', ''alice'')], headers = []\<rparr>, pending_login)"
  by (simp add: authorization_def nothing_stored_def pending_login_def sim_defs redis_defs Let_def)


lemma recover_reaches_pending:
  "recover sim_env ''alice'' nothing_stored
     = (Inr \<lparr>status_code = 200, content = [(''message'', MSG_NOW_ENTER_CODE), (''user'', ''alice'')], headers = []\<rparr>, pending_recovery)"
  by (simp add: recover_def nothing_stored_def pending_recovery_def sim_defs redis_defs Let_def)


text \<open>Expiry leaves a missing key missing and a key without time to live in place.\<close>

lemma elapse_absent: "s k = None \<Longrightarrow> elapse t s k = None"
  by (simp add: elapse_def)


lemma elapse_no_ttl: "s k = Some (v, None) \<Longrightarrow> elapse t s k = Some (v, None)"
  by (simp add: elapse_def)


text \<open>Whatever else \<^verbatim>\<open>logout\<close> does, the token is not in the store afterwards.\<close>

lemma logout_removes_token: "redis (snd (logout env token st)) token = None"
  by (cases "redis st token")
     (auto simp: logout_def redis_defs Let_def split: sum.splits)


lemma get_current_user_absent:
  "redis st token = None \<Longrightarrow> get_current_user env token st = Inl credentials_exception"
  by (simp add: get_current_user_def redis_exists_def)


text \<open>
  \<^verbatim>\<open>confirm\<close> and \<^verbatim>\<open>reset_code\<close> leave the entry they read in the store, on every
  path and with every backend.
\<close>

lemma confirm_keeps_entry: "redis (snd (confirm env code st)) code = redis st code"
  using login_key_neq [of code]
  by (auto simp: confirm_def redis_delete_def Let_def split: sum.splits prod.splits)


lemma reset_code_keeps_entry:
  "redis_exists (redis st) code \<Longrightarrow> redis_exists (redis (snd (reset_code env code st))) code"
  using login_key_neq [of code]
  by (auto simp: reset_code_def redis_defs Let_def split: sum.splits prod.splits)


text \<open>
  \<^verbatim>\<open>confirm\<close> does return its 400 response for a code that is not in the store, and
  \<^verbatim>\<open>reset_code\<close> answers 400 when the stored state is not the one written by
  \<^verbatim>\<open>recover\<close>.
\<close>

lemma confirm_absent:
  "\<not> redis_exists (redis st) code \<Longrightarrow>
   confirm env code st = (Inr (JSONResponse MSG_WRONG_CODE 400), st)"
  by (simp add: confirm_def)

lemma reset_code_wrong_state:
  "load_entry env (redis st) code = Inr d \<Longrightarrow> dict_get d ''state'' \<noteq> SESSION_STATE_MAIL env \<Longrightarrow>
   reset_code env code st = (Inr (JSONResponse MSG_NO_MAIL 400), st)"
  by (simp add: reset_code_def)

text \<open>
  A key that is not in the store makes \<^verbatim>\<open>verification\<close> and \<^verbatim>\<open>change_password\<close>
  raise, with the state as it was.
\<close>

lemma verification_absent:
  "\<not> redis_exists (redis st) code \<Longrightarrow> verification env code st = (Inl AttributeError, st)"
  by (cases "redis st code") (simp_all add: verification_def load_entry_def redis_defs)


lemma change_password_absent:
  "\<not> redis_exists (redis st) (pc_user data) \<Longrightarrow> change_password env data st = (Inl AttributeError, st)"
  by (cases "redis st (pc_user data)") (simp_all add: change_password_def load_entry_def redis_defs)


text \<open>
  \<^verbatim>\<open>change_password\<close> answers 400 when the stored state is not the one written by
  \<^verbatim>\<open>reset_code\<close>, and reaches the backend only from an entry in that state.
\<close>

lemma change_password_wrong_state:
  "load_entry env (redis st) (pc_user data) = Inr d \<Longrightarrow> dict_get d ''state'' \<noteq> SESSION_STATE_CODE env \<Longrightarrow>
   change_password env data st = (Inr (JSONResponse MSG_NO_CODE 400), st)"
  by (simp add: change_password_def)


lemma change_password_world:
  "world (snd (change_password env data st)) \<noteq> world st \<Longrightarrow>
   \<exists>d. load_entry env (redis st) (pc_user data) = Inr d \<and> dict_get d ''state'' = SESSION_STATE_CODE env"
  by (auto simp: change_password_def Let_def split: sum.splits prod.splits if_splits)


section \<open>Token revocation and verification\<close>

text \<open>
  Claim C1. For a token in the store, once \<^verbatim>\<open>logout\<close> has returned its response,
  \<^verbatim>\<open>get_current_user\<close> rejects the token with the 401 credentials exception, at once
  and after any time has passed, whatever the decoder still says about the token. And
  \<^verbatim>\<open>get_current_user\<close> accepts a token exactly when it is in the store and decodes
  to a payload with a login: a token that is not in the store is never accepted.
\<close>

theorem logout_revokes_token:
  assumes "redis_exists (redis st) token" and "logout env token st = (Inr r, st')"
  shows "get_current_user env token st' = Inl credentials_exception
       \<and> (\<forall>t. get_current_user env token (st'\<lparr>redis := elapse t (redis st')\<rparr>) = Inl credentials_exception)
       \<and> (\<forall>tok s. (\<exists>u. get_current_user env tok s = Inr u) \<longleftrightarrow>
             (redis_exists (redis s) tok \<and>
              (\<exists>payload. decode_jwt_token env tok (SECRET_KEY env) (world s) = Inr payload
                 \<and> dict_get payload ''login'' \<noteq> JNull)))"
proof -
  have "redis (snd (logout env token st)) token = None"
    by (rule logout_removes_token)
  with assms(2) have gone: "redis st' token = None" by simp
  have a: "get_current_user env token st' = Inl credentials_exception"
    using gone by (rule get_current_user_absent)
  have b: "\<forall>t. get_current_user env token (st'\<lparr>redis := elapse t (redis st')\<rparr>) = Inl credentials_exception"
    using gone by (simp add: get_current_user_absent elapse_absent)
  have c: "\<forall>tok s. (\<exists>u. get_current_user env tok s = Inr u) \<longleftrightarrow>
             (redis_exists (redis s) tok \<and>
              (\<exists>payload. decode_jwt_token env tok (SECRET_KEY env) (world s) = Inr payload
                 \<and> dict_get payload ''login'' \<noteq> JNull))"
    by (auto simp: get_current_user_def Let_def split: sum.splits if_splits)
  from a b c show ?thesis by blast
qed


text \<open>
  Claim C1, at a concrete input: one minute after the login the token of \<open>alice\<close> is
  accepted; \<^verbatim>\<open>logout\<close> answers 200; the decoder still accepts the token, and
  \<^verbatim>\<open>get_current_user\<close> rejects it.
\<close>

theorem logout_revokes_token_witness:
  "redis_exists (redis (session_at 60 ''alice'')) ''jwt.alice.3600''
   \<and> fst (logout sim_env ''jwt.alice.3600'' (session_at 60 ''alice'')) = Inr (JSONResponse MSG_LOGOUT 200)
   \<and> get_current_user sim_env ''jwt.alice.3600'' (session_at 60 ''alice'') = Inr [(''login'', JStr ''alice'')]
   \<and> decode_jwt_token sim_env ''jwt.alice.3600'' (SECRET_KEY sim_env)
        (world (snd (logout sim_env ''jwt.alice.3600'' (session_at 60 ''alice''))))
       = Inr [(''login'', JStr ''alice''), (''exp'', JInt 3600)]
   \<and> get_current_user sim_env ''jwt.alice.3600'' (snd (logout sim_env ''jwt.alice.3600'' (session_at 60 ''alice'')))
       = Inl credentials_exception"
proof -
  have h1: "redis_exists (redis (session_at 60 ''alice'')) ''jwt.alice.3600''"
    by (simp add: session_at_def sim_defs redis_defs)
  have h2: "logout sim_env ''jwt.alice.3600'' (session_at 60 ''alice'')
      = (Inr (JSONResponse MSG_LOGOUT 200), snd (logout sim_env ''jwt.alice.3600'' (session_at 60 ''alice'')))"
    by (simp add: logout_def session_at_def sim_defs redis_defs entry_defs Let_def)
  have h3: "get_current_user sim_env ''jwt.alice.3600'' (session_at 60 ''alice'') = Inr [(''login'', JStr ''alice'')]"
    by (simp add: get_current_user_def session_at_def sim_defs redis_defs entry_defs Let_def)
  have h4: "decode_jwt_token sim_env ''jwt.alice.3600'' (SECRET_KEY sim_env)
        (world (snd (logout sim_env ''jwt.alice.3600'' (session_at 60 ''alice''))))
       = Inr [(''login'', JStr ''alice''), (''exp'', JInt 3600)]"
    by (simp add: logout_def session_at_def sim_defs redis_defs entry_defs Let_def)
  have h5: "fst (logout sim_env ''jwt.alice.3600'' (session_at 60 ''alice'')) = Inr (JSONResponse MSG_LOGOUT 200)"
    by (simp add: logout_def session_at_def sim_defs redis_defs entry_defs Let_def)
  from logout_revokes_token [OF h1 h2]
  have r: "get_current_user sim_env ''jwt.alice.3600'' (snd (logout sim_env ''jwt.alice.3600'' (session_at 60 ''alice'')))
       = Inl credentials_exception"
    by blast
  from h1 h5 h3 h4 r show ?thesis by blast
qed






section \<open>Logout\<close>

text \<open>
  The paths of \<^verbatim>\<open>logout\<close>. A token that is not in the store gets the 400 response and
  nothing changes. A token in the store is deleted on every path, before the decoder is
  asked. If the decoder returns claims with a login, the active flag of that login is
  set and the answer is 200; if the decoder raises, or the claims have no login, the
  exception leaves the handler after the deletion and the flag is not touched.
\<close>

lemma logout_paths:
  "(\<not> redis_exists (redis st) token
      \<longrightarrow> logout env token st = (Inr (JSONResponse MSG_TOKEN_NOT_FOUND 400), st))
   \<and> (redis_exists (redis st) token
      \<longrightarrow> redis (snd (logout env token st)) = redis_delete (redis st) token)
   \<and> (redis_exists (redis st) token
        \<and> decode_jwt_token env token (SECRET_KEY env) (world st) = Inr claims
        \<and> map_of claims ''login'' = Some l
      \<longrightarrow> logout env token st =
            (Inr (JSONResponse MSG_LOGOUT 200),
             \<lparr>redis = redis_delete (redis st) token,
              world = update_is_active env l True (world st)\<rparr>))
   \<and> (redis_exists (redis st) token
        \<and> decode_jwt_token env token (SECRET_KEY env) (world st) = Inl e
      \<longrightarrow> logout env token st =
            (Inl e, \<lparr>redis = redis_delete (redis st) token, world = world st\<rparr>))
   \<and> (redis_exists (redis st) token
        \<and> decode_jwt_token env token (SECRET_KEY env) (world st) = Inr claims
        \<and> map_of claims ''login'' = None
      \<longrightarrow> logout env token st =
            (Inl KeyError, \<lparr>redis = redis_delete (redis st) token, world = world st\<rparr>))"
  by (auto simp: logout_def dict_item_def Let_def split: sum.splits option.splits)

text \<open>
  At concrete inputs: the empty store, and a token stored with the value \<open>bob\<close> whose
  claims name \<open>alice\<close>: the flag is set for \<open>alice\<close>, the login of the claims.
\<close>

lemma logout_paths_example:
  "\<not> redis_exists (redis nothing_stored) ''jwt.alice.3600''
   \<and> logout sim_env ''jwt.alice.3600'' nothing_stored = (Inr (JSONResponse MSG_TOKEN_NOT_FOUND 400), nothing_stored)
   \<and> redis_exists (redis (session_at 60 ''bob'')) ''jwt.alice.3600''
   \<and> fst (logout sim_env ''jwt.alice.3600'' (session_at 60 ''bob'')) = Inr (JSONResponse MSG_LOGOUT 200)
   \<and> redis (snd (logout sim_env ''jwt.alice.3600'' (session_at 60 ''bob''))) = Map.empty
   \<and> journal (world (snd (logout sim_env ''jwt.alice.3600'' (session_at 60 ''bob'')))) = [ActiveSet (JStr ''alice'') True]"
proof -
  have h0: "\<not> redis_exists (redis nothing_stored) ''jwt.alice.3600''"
    by (simp add: nothing_stored_def sim_defs redis_defs)
  have h1: "redis_exists (redis (session_at 60 ''bob'')) ''jwt.alice.3600''"
    by (simp add: session_at_def sim_defs redis_defs)
  have d1: "decode_jwt_token sim_env ''jwt.alice.3600'' (SECRET_KEY sim_env) (world (session_at 60 ''bob''))
      = Inr [(''login'', JStr ''alice''), (''exp'', JInt 3600)]"
    by (simp add: session_at_def sim_defs)
  have m1: "map_of [(''login'', JStr ''alice''), (''exp'', JInt 3600)] ''login'' = Some (JStr ''alice'')"
    by simp
  from logout_paths [of nothing_stored "''jwt.alice.3600''" sim_env] h0
  have r0: "logout sim_env ''jwt.alice.3600'' nothing_stored = (Inr (JSONResponse MSG_TOKEN_NOT_FOUND 400), nothing_stored)"
    by simp
  from logout_paths [of "session_at 60 ''bob''" "''jwt.alice.3600''" sim_env
         "[(''login'', JStr ''alice''), (''exp'', JInt 3600)]" "JStr ''alice''"] h1 d1 m1
  have r1: "logout sim_env ''jwt.alice.3600'' (session_at 60 ''bob'') =
            (Inr (JSONResponse MSG_LOGOUT 200),
             \<lparr>redis = redis_delete (redis (session_at 60 ''bob'')) ''jwt.alice.3600'',
              world = update_is_active sim_env (JStr ''alice'') True (world (session_at 60 ''bob''))\<rparr>)"
    by simp
  have r2: "redis_delete (redis (session_at 60 ''bob'')) ''jwt.alice.3600'' = Map.empty"
    by (simp add: session_at_def sim_defs redis_defs)
  have r3: "journal (update_is_active sim_env (JStr ''alice'') True (world (session_at 60 ''bob''))) = [ActiveSet (JStr ''alice'') True]"
    by (simp add: session_at_def sim_defs)
  from h0 h1 r0 r1 r2 r3 show ?thesis by simp
qed

text \<open>
  Claim C8 at its failing input. Two hours after the login the token of \<open>alice\<close> is
  still in the store (its time to live is twelve hours) and its own expiry of one hour
  has passed. \<^verbatim>\<open>logout\<close> deletes the token, the decoder raises, and the exception
  leaves the handler: there is no 200 response and the active flag is not set.
\<close>

theorem logout_at_expired_token:
  "redis_exists (redis (session_at 7200 ''alice'')) ''jwt.alice.3600''
   \<and> fst (logout sim_env ''jwt.alice.3600'' (session_at 7200 ''alice'')) = Inl JWTError
   \<and> fst (logout sim_env ''jwt.alice.3600'' (session_at 7200 ''alice'')) \<noteq> Inr (JSONResponse MSG_LOGOUT 200)
   \<and> redis (snd (logout sim_env ''jwt.alice.3600'' (session_at 7200 ''alice''))) = Map.empty
   \<and> journal (world (snd (logout sim_env ''jwt.alice.3600'' (session_at 7200 ''alice'')))) = []"
  by (simp add: logout_def session_at_def sim_defs redis_defs entry_defs Let_def)


section \<open>Registration\<close>

text \<open>
  Claim C9, as stated, fails: the entry that a successful registration writes has no
  time to live, and it is still in the store a year later.
\<close>

theorem registration_ttl_counterexample:
  "fst (registration sim_env reg_alice nothing_stored) = Inr (JSONResponse MSG_ENTER_CODE 200)
   \<and> redis_exists (redis (snd (registration sim_env reg_alice nothing_stored))) ''123456''
   \<and> redis_ttl (redis (snd (registration sim_env reg_alice nothing_stored))) ''123456'' = None
   \<and> redis_exists (elapse 31536000 (redis (snd (registration sim_env reg_alice nothing_stored)))) ''123456''"
  by (simp add: registration_def reg_alice_def nothing_stored_def sim_defs redis_defs elapse_def Let_def)


text \<open>
  Claim C9, amended. When the backend accepts the registration, the handler answers 200
  and writes the pending entry under the code of the backend with no time to live: the
  entry does not expire, however much time passes.
\<close>

theorem registration_entry_never_expires:
  assumes "Registration_register env (reg_email data) (reg_login data) (reg_password data)
             (reg_password_two data) (world st) = (result, w)"
      and "res_status_code result = 200"
  shows "registration env data st =
           (Inr (JSONResponse MSG_ENTER_CODE 200),
            \<lparr>redis = (redis st)(res_code result \<mapsto>
                (JsonText [(''email'', JStr (reg_email data)), (''login'', JStr (reg_login data)),
                           (''password'', JStr (reg_password data))], None)),
             world = w\<rparr>)
       \<and> redis_ttl (redis (snd (registration env data st))) (res_code result) = None
       \<and> (\<forall>t. elapse t (redis (snd (registration env data st))) (res_code result) =
            Some (JsonText [(''email'', JStr (reg_email data)), (''login'', JStr (reg_login data)),
                            (''password'', JStr (reg_password data))], None))"
  using assms by (simp add: registration_def redis_defs elapse_def Let_def)


text \<open>
  Claim C9 amended, at a concrete input: the registration of \<open>alice\<close> on the empty
  store.
\<close>

theorem registration_entry_never_expires_witness:
  "Registration_register sim_env (reg_email reg_alice) (reg_login reg_alice) (reg_password reg_alice)
       (reg_password_two reg_alice) (world nothing_stored)
     = (ok_result ''sent'' ''123456'' ''alice'', world nothing_stored)
   \<and> res_status_code (ok_result ''sent'' ''123456'' ''alice'') = 200
   \<and> registration sim_env reg_alice nothing_stored = (Inr (JSONResponse MSG_ENTER_CODE 200), pending_registration)
   \<and> redis_ttl (redis pending_registration) ''123456'' = None
   \<and> elapse 31536000 (redis pending_registration) ''123456'' = redis pending_registration ''123456''"
proof -
  have h1: "Registration_register sim_env (reg_email reg_alice) (reg_login reg_alice) (reg_password reg_alice)
       (reg_password_two reg_alice) (world nothing_stored)
     = (ok_result ''sent'' ''123456'' ''alice'', world nothing_stored)"
    by (simp add: reg_alice_def sim_defs)
  have h2: "res_status_code (ok_result ''sent'' ''123456'' ''alice'') = 200"
    by (simp add: ok_result_def)
  have e: "\<lparr>redis = (redis nothing_stored)(res_code (ok_result ''sent'' ''123456'' ''alice'') \<mapsto>
                (JsonText [(''email'', JStr (reg_email reg_alice)), (''login'', JStr (reg_login reg_alice)),
                           (''password'', JStr (reg_password reg_alice))], None)),
             world = world nothing_stored\<rparr> = pending_registration"
    by (simp add: reg_alice_def nothing_stored_def pending_registration_def sim_defs)
  note t = registration_entry_never_expires [OF h1 h2]
  from t have r1: "registration sim_env reg_alice nothing_stored
      = (Inr (JSONResponse MSG_ENTER_CODE 200), pending_registration)"
    unfolding e by blast
  have c: "res_code (ok_result ''sent'' ''123456'' ''alice'') = ''123456''"
    by (simp add: ok_result_def)
  have s: "snd (registration sim_env reg_alice nothing_stored) = pending_registration"
    using r1 by simp
  from t have r2: "redis_ttl (redis pending_registration) ''123456'' = None"
    unfolding s c by blast
  from t have r3: "elapse 31536000 (redis pending_registration) ''123456'' =
      Some (JsonText [(''email'', JStr (reg_email reg_alice)), (''login'', JStr (reg_login reg_alice)),
                      (''password'', JStr (reg_password reg_alice))], None)"
    unfolding s c by blast
  have p: "redis pending_registration ''123456'' =
      Some (JsonText [(''email'', JStr (reg_email reg_alice)), (''login'', JStr (reg_login reg_alice)),
                      (''password'', JStr (reg_password reg_alice))], None)"
    by (simp add: reg_alice_def pending_registration_def sim_defs)
  from h1 h2 r1 r2 r3 p show ?thesis by simp
qed


text \<open>
  Claim C2 at its failing input, the pending registration of \<open>alice\<close> under the code
  \<open>123456\<close>. The first \<^verbatim>\<open>confirm\<close> answers 200 and leaves the store as it was: the
  key it deletes is \<open>login:123456\<close>. The second \<^verbatim>\<open>confirm\<close> finds the entry, reaches
  the backend again and answers 200; the user is saved twice.
\<close>

theorem confirm_twice_at_pending_registration: "redis_exists (redis pending_registration) ''123456''
  \<and> fst (confirm sim_env ''123456'' pending_registration) = Inr (JSONResponse ''saved'' 200)
  \<and> redis (snd (confirm sim_env ''123456'' pending_registration)) = redis pending_registration
  \<and> fst (confirm sim_env ''123456'' (snd (confirm sim_env ''123456'' pending_registration)))
      = Inr (JSONResponse ''saved'' 200)
  \<and> journal (world (snd (confirm sim_env ''123456'' (snd (confirm sim_env ''123456'' pending_registration)))))
      = [UserSaved (JStr ''a@x.com'') (JStr ''alice'') (JStr ''P@ss1''),
         UserSaved (JStr ''a@x.com'') (JStr ''alice'') (JStr ''P@ss1'')]"
  by (simp add: confirm_def pending_registration_def sim_defs redis_defs entry_defs Let_def)


section \<open>Login verification\<close>

text \<open>
  Claim C3 at its failing input, the code \<open>000000\<close> on the empty store:
  \<^verbatim>\<open>verification\<close> returns no response, it raises \<open>AttributeError\<close>. The state is
  unchanged: no token, no active flag, no write.
\<close>

theorem verification_at_absent_code: "\<not> redis_exists (redis nothing_stored) ''000000''
  \<and> verification sim_env ''000000'' nothing_stored = (Inl AttributeError, nothing_stored)"
  by (simp add: verification_def nothing_stored_def sim_defs redis_defs entry_defs Let_def)


text \<open>
  Claim C7 at its failing input, the pending login of \<open>alice\<close> under the code
  \<open>654321\<close>. \<^verbatim>\<open>verification\<close> answers 200 with the bearer token, stores the token
  under itself with the login as value and 43200 seconds to live (the token was made for
  one hour), and sets the active flag. The pending login entry is still in the store: the
  key deleted is \<open>login:654321\<close>.
\<close>

theorem verification_at_pending_login: "fst (verification sim_env ''654321'' pending_login)
      = Inr \<lparr>status_code = 200, content = [(''message'', MSG_AUTHORIZED)],
             headers = [(''Authorization'', ''Bearer jwt.alice.3600'')]\<rparr>
  \<and> redis (snd (verification sim_env ''654321'' pending_login)) ''jwt.alice.3600''
      = Some (PlainText ''alice'', Some 43200)
  \<and> journal (world (snd (verification sim_env ''654321'' pending_login))) = [ActiveSet (JStr ''alice'') True]
  \<and> redis (snd (verification sim_env ''654321'' pending_login)) ''654321'' = redis pending_login ''654321''
  \<and> redis_exists (redis (snd (verification sim_env ''654321'' pending_login))) ''654321''"
  by (simp add: verification_def pending_login_def sim_defs redis_defs entry_defs
        str_nat.simps digit_char_def Let_def timedelta_hours_def)


section \<open>Password recovery\<close>

text \<open>
  Claim C5 at its failing input, the recovery of \<open>alice\<close> waiting under the code
  \<open>111222\<close>. \<^verbatim>\<open>reset_code\<close> answers 200 and writes the entry under \<open>alice\<close> with
  the second state. The entry under the code is still in the store, unchanged: the key
  deleted is \<open>login:111222\<close>.
\<close>

theorem reset_code_at_pending_recovery: "fst (reset_code sim_env ''111222'' pending_recovery) = Inr (JSONResponse MSG_CHANGE_PASSWORD 200)
  \<and> redis (snd (reset_code sim_env ''111222'' pending_recovery)) ''alice''
      = Some (JsonText [(''state'', JStr ''code''), (''user'', JStr ''alice'')], None)
  \<and> redis (snd (reset_code sim_env ''111222'' pending_recovery)) ''111222''
      = Some (JsonText [(''state'', JStr ''mail''), (''user'', JStr ''alice'')], None)
  \<and> redis_exists (redis (snd (reset_code sim_env ''111222'' pending_recovery))) ''111222''"
  by (simp add: reset_code_def pending_recovery_def sim_defs redis_defs entry_defs Let_def)


text \<open>
  Claim C4 at its failing input, a password change for \<open>alice\<close> on the empty store:
  \<^verbatim>\<open>change_password\<close> returns no response, it raises \<open>AttributeError\<close>. The state is
  unchanged.
\<close>

theorem change_password_at_absent_entry: "\<not> redis_exists (redis nothing_stored) ''alice''
  \<and> change_password sim_env \<lparr>pc_user = ''alice'', pc_password = ''New1'', pc_password_two = ''New1''\<rparr> nothing_stored
     = (Inl AttributeError, nothing_stored)"
  by (simp add: change_password_def nothing_stored_def sim_defs redis_defs entry_defs Let_def)


text \<open>
  Claim C6 at its failing input, the confirmed recovery of \<open>alice\<close>.
  \<^verbatim>\<open>change_password\<close> answers 200 and the backend saves the password. The entry under
  \<open>alice\<close> is still in the store: the key deleted is \<open>login:alice\<close>.
\<close>

theorem change_password_at_verified_recovery: "fst (change_password sim_env \<lparr>pc_user = ''alice'', pc_password = ''New1'', pc_password_two = ''New1''\<rparr> verified_recovery)
      = Inr (JSONResponse ''changed'' 200)
  \<and> journal (world (snd (change_password sim_env \<lparr>pc_user = ''alice'', pc_password = ''New1'', pc_password_two = ''New1''\<rparr> verified_recovery)))
      = [PasswordSaved (JStr ''alice'') ''New1'']
  \<and> redis (snd (change_password sim_env \<lparr>pc_user = ''alice'', pc_password = ''New1'', pc_password_two = ''New1''\<rparr> verified_recovery))
      = redis verified_recovery
  \<and> redis_exists (redis (snd (change_password sim_env \<lparr>pc_user = ''alice'', pc_password = ''New1'', pc_password_two = ''New1''\<rparr> verified_recovery))) ''alice''"
  by (simp add: change_password_def verified_recovery_def sim_defs redis_defs entry_defs Let_def)

end
